theory Spec2Isabelle
  imports Main
begin

section \<open>Python strings\<close>

text \<open>
  The scraper is one Python module, \<^verbatim>\<open>elpais_scraper.py\<close>. Its text values are Python
  \<^verbatim>\<open>str\<close>; they are modelled as \<^typ>\<open>string\<close>, one \<^typ>\<open>char\<close> per code point, which
  covers the code points below 256. On these, \<^verbatim>\<open>\w\<close> holds of \<^verbatim>\<open>[A-Za-z0-9_]\<close> and of the
  letters and numeric signs of Latin-1, \<^verbatim>\<open>str.lower\<close> changes \<^verbatim>\<open>A-Z\<close> and the capital letters
  192 to 222 (not the sign 215), and \<^verbatim>\<open>str.isspace\<close> holds of the code points 9 to 13,
  28 to 32, 133 and 160.
\<close>

definition ascii_uppercase :: string where
  "ascii_uppercase = ''ABCDEFGHIJKLMNOPQRSTUVWXYZ''"

definition ascii_lowercase :: string where
  "ascii_lowercase = ''abcdefghijklmnopqrstuvwxyz''"

definition digits :: string where
  "digits = ''0123456789''"

definition is_alpha :: "char \<Rightarrow> bool" where
  \<comment> \<open>the character class \<^verbatim>\<open>[a-zA-Z]\<close>\<close>
  "is_alpha c = (c \<in> set ascii_lowercase \<or> c \<in> set ascii_uppercase)"

definition latin1_alnum :: "nat set" where
  \<comment> \<open>the code points from 128 to 255 of which \<^verbatim>\<open>str.isalnum\<close> holds\<close>
  "latin1_alnum =
     {170, 178, 179, 181, 185, 186, 188, 189, 190} \<union> {192..214} \<union> {216..246} \<union> {248..255}"

definition is_word :: "char \<Rightarrow> bool" where
  \<comment> \<open>\<^verbatim>\<open>\w\<close>\<close>
  "is_word c =
     (is_alpha c \<or> c \<in> set digits \<or> c = CHR ''_'' \<or> of_char c \<in> latin1_alnum)"

definition is_space :: "char \<Rightarrow> bool" where
  "is_space c = (of_char c \<in> {9, 10, 11, 12, 13, 28, 29, 30, 31, 32, 133, 160 :: nat})"

definition lower_char :: "char \<Rightarrow> char" where
  "lower_char c =
     (case map_of (zip ascii_uppercase ascii_lowercase) c of
        Some d \<Rightarrow> d
      | None \<Rightarrow>
          if of_char c \<in> {192..214} \<union> {216..222 :: nat} then char_of (of_char c + 32 :: nat)
          else c)"

definition lower :: "string \<Rightarrow> string" where
  "lower s = map lower_char s"

definition strip :: "string \<Rightarrow> string" where
  \<comment> \<open>\<^verbatim>\<open>s.strip()\<close>\<close>
  "strip s = rev (dropWhile is_space (rev (dropWhile is_space s)))"

definition startswith :: "string \<Rightarrow> string \<Rightarrow> bool" where
  \<comment> \<open>\<^verbatim>\<open>s.startswith(p)\<close>\<close>
  "startswith s p = (take (length p) s = p)"

fun contains :: "string \<Rightarrow> string \<Rightarrow> bool" where
  \<comment> \<open>\<^verbatim>\<open>p in s\<close>\<close>
  "contains [] p = (p = [])"
| "contains (c # cs) p = (startswith (c # cs) p \<or> contains cs p)"

definition split_first :: "char \<Rightarrow> string \<Rightarrow> string" where
  \<comment> \<open>\<^verbatim>\<open>s.split(sep)[0]\<close> for a one-character separator: \<^verbatim>\<open>split\<close> returns at least one
      piece, so the index never fails\<close>
  "split_first sep s = takeWhile (\<lambda>c. c \<noteq> sep) s"

definition replace_char :: "char \<Rightarrow> string \<Rightarrow> string \<Rightarrow> string" where
  \<comment> \<open>\<^verbatim>\<open>s.replace(c, r)\<close> for a one-character \<^verbatim>\<open>c\<close>\<close>
  "replace_char c r s = concat (map (\<lambda>d. if d = c then r else [d]) s)"

fun str_nat :: "nat \<Rightarrow> string" where
  \<comment> \<open>\<^verbatim>\<open>str(n)\<close> of a non-negative integer\<close>
  "str_nat n = (if n < 10 then [digits ! n] else str_nat (n div 10) @ [digits ! (n mod 10)])"

declare str_nat.simps [simp del]

section \<open>Headline analysis (lines 303 to 323)\<close>

text \<open>
  \<^verbatim>\<open>re.findall(r'\b[a-zA-Z]+\b', s)\<close> scans \<^verbatim>\<open>s\<close> from the left. The flag says whether the
  character before the current position is a word character. A match starts where
  \<^verbatim>\<open>\b\<close> holds before a letter, takes the letters greedily and needs \<^verbatim>\<open>\b\<close> after them;
  a shorter run of letters never ends at a boundary, so when the greedy run is followed
  by a digit or an underscore nothing matches at this position and the scan moves on by
  one character. After a match the scan resumes behind it.
\<close>

function findall_words :: "bool \<Rightarrow> string \<Rightarrow> string list" where
  "findall_words prev [] = []"
| "findall_words prev (c # cs) =
     (if \<not> prev \<and> is_alpha c then
        (if (case dropWhile is_alpha cs of [] \<Rightarrow> True | d # _ \<Rightarrow> \<not> is_word d)
         then (c # takeWhile is_alpha cs) # findall_words True (dropWhile is_alpha cs)
         else findall_words (is_word c) cs)
      else findall_words (is_word c) cs)"
  by pat_completeness auto
termination
proof (relation "measure (\<lambda>(prev, s). length s)")
  show "wf (measure (\<lambda>(prev, s). length s))" by simp
next
  fix prev :: bool and c :: char and cs :: string
  have "length (dropWhile is_alpha cs) \<le> length cs" by (rule length_dropWhile_le)
  then show "((True, dropWhile is_alpha cs), (prev, c # cs)) \<in> measure (\<lambda>(prev, s). length s)"
    by simp
next
  fix prev :: bool and c :: char and cs :: string
  show "((is_word c, cs), (prev, c # cs)) \<in> measure (\<lambda>(prev, s). length s)" by simp
next
  fix prev :: bool and c :: char and cs :: string
  show "((is_word c, cs), (prev, c # cs)) \<in> measure (\<lambda>(prev, s). length s)" by simp
qed

definition re_findall_words :: "string \<Rightarrow> string list" where
  "re_findall_words s = findall_words False s"

text \<open>
  \<^verbatim>\<open>Counter(all_words)\<close> is a dictionary that keeps its keys in the order in which they
  were first seen: an association list, one count per word.
\<close>

fun counter_add :: "'a \<Rightarrow> ('a \<times> nat) list \<Rightarrow> ('a \<times> nat) list" where
  "counter_add w [] = [(w, 1)]"
| "counter_add w ((k, n) # kns) =
     (if k = w then (k, Suc n) # kns else (k, n) # counter_add w kns)"

definition Counter :: "'a list \<Rightarrow> ('a \<times> nat) list" where
  "Counter ws = foldl (\<lambda>m w. counter_add w m) [] ws"

definition all_words_of :: "string list \<Rightarrow> string list" where
  \<comment> \<open>the loop of lines 307 to 310\<close>
  "all_words_of all_translated_headers =
     concat (map (\<lambda>header. re_findall_words (lower header)) all_translated_headers)"

definition repeated_words_of :: "string list \<Rightarrow> (string \<times> nat) list" where
  \<comment> \<open>lines 312 to 314\<close>
  "repeated_words_of all_translated_headers =
     filter (\<lambda>(word, count). count > 2) (Counter (all_words_of all_translated_headers))"

section \<open>Collaborators: exceptions, effects, elements\<close>

text \<open>
  Every call into Selenium, \<^verbatim>\<open>requests\<close>, the translation client or the file system either
  returns or raises an instance of \<^verbatim>\<open>Exception\<close>; an interrupt of the interpreter is not
  modelled, and \<^verbatim>\<open>print\<close> returns. What a call answers depends on its arguments only.
  A result is \<open>exn + 'a\<close>, with \<open>Inl\<close> the exception raised.
\<close>

datatype exn = Exception string | ValueError string | KeyError string

fun str_exn :: "exn \<Rightarrow> string" where
  \<comment> \<open>\<^verbatim>\<open>str(e)\<close>\<close>
  "str_exn (Exception m) = m"
| "str_exn (ValueError m) = m"
| "str_exn (KeyError k) = [CHR 0x27] @ k @ [CHR 0x27]"

text \<open>What a run does to the world outside, in the order in which it does it.\<close>

datatype effect =
    Print string
  | TranslateCall string
  | HttpGet string
  | FileOpen string
  | FileWrite string string
  | ExecuteScript string
  | Quit

datatype By = TAG_NAME | CSS_SELECTOR

text \<open>
  A \<^verbatim>\<open>WebElement\<close> is opaque to the scraper: all it does is ask. The element is modelled
  by the answers it gives: to \<^verbatim>\<open>.text\<close>, to \<^verbatim>\<open>get_attribute\<close> (an attribute not listed is
  \<^verbatim>\<open>None\<close>), to \<^verbatim>\<open>find_element\<close> (a locator not listed raises) and to
  \<^verbatim>\<open>find_elements\<close> (a locator not listed finds nothing).
\<close>

datatype web_element = WebElement
  (el_text: "exn + string")
  (el_attributes: "(string \<times> (exn + string option)) list")
  (el_find: "((By \<times> string) \<times> (exn + web_element)) list")
  (el_find_all: "((By \<times> string) \<times> (exn + web_element list)) list")

definition find_element :: "web_element \<Rightarrow> By \<Rightarrow> string \<Rightarrow> exn + web_element" where
  "find_element el b v =
     (case map_of (el_find el) (b, v) of
        Some r \<Rightarrow> r
      | None \<Rightarrow> Inl (Exception ''no such element''))"

definition find_elements :: "web_element \<Rightarrow> By \<Rightarrow> string \<Rightarrow> exn + web_element list" where
  "find_elements el b v =
     (case map_of (el_find_all el) (b, v) of Some r \<Rightarrow> r | None \<Rightarrow> Inr [])"

definition get_attribute :: "web_element \<Rightarrow> string \<Rightarrow> exn + string option" where
  "get_attribute el a =
     (case map_of (el_attributes el) a of Some r \<Rightarrow> r | None \<Rightarrow> Inr None)"

record response =
  status_code :: nat
  content :: "exn + string"

record driver =
  drv_get :: "string \<Rightarrow> exn + unit"
  drv_current_url :: "exn + string"
  drv_wait_article :: "exn + unit"
  drv_find_articles :: "exn + web_element list"
  drv_execute_script :: "string \<Rightarrow> exn + unit"
  drv_quit :: "exn + unit"

text \<open>
  \<open>drv_wait_article\<close> is \<^verbatim>\<open>WebDriverWait(driver, 15).until(presence_of_element_located(
  (By.TAG_NAME, "article")))\<close>, which raises when the 15 seconds pass;
  \<open>drv_find_articles\<close> is \<^verbatim>\<open>driver.find_elements(By.TAG_NAME, "article")\<close>.
\<close>

record capabilities =
  browser_name :: string
  browser_version :: "string option"
  bstack_options :: "(string \<times> string) list"

text \<open>The module-level names the functions read, and the libraries they call.\<close>

record env =
  BROWSERSTACK_USERNAME :: string
  BROWSERSTACK_ACCESS_KEY :: string
  translate_client :: "(string \<Rightarrow> exn + string) option"
  requests_get :: "string \<Rightarrow> exn + response"
  open_wb :: "string \<Rightarrow> exn + unit"
  write_bytes :: "string \<Rightarrow> string \<Rightarrow> exn + unit"
  webdriver_Remote :: "string \<Rightarrow> capabilities \<Rightarrow> exn + driver"

text \<open>
  \<open>translate_client\<close> is \<^verbatim>\<open>None\<close> or the client; the client's answer to a title is
  \<^verbatim>\<open>translate(title, target_language='en')['translatedText']\<close>, or the exception raised
  on the way.
\<close>

definition OPINION_SECTION_URL :: string where
  "OPINION_SECTION_URL = ''https://elpais.com/opinion/''"

definition IMAGES_DIR :: string where
  "IMAGES_DIR = ''article_images''"

record article_record =
  title_spanish :: string
  content_spanish :: string
  image_url :: "string option"
  title_english :: string

section \<open>Title and summary (lines 182 to 203)\<close>

definition title_not_found :: "nat \<Rightarrow> exn \<Rightarrow> string \<times> effect list" where
  \<comment> \<open>the handler of lines 187 to 189\<close>
  "title_not_found i e =
     (''Title not found'',
      [Print (''Could not find title for article '' @ str_nat (i + 1) @ '': '' @ str_exn e)])"

definition scrape_title :: "nat \<Rightarrow> web_element \<Rightarrow> string \<times> effect list" where
  "scrape_title i article_element =
     (case find_element article_element TAG_NAME ''h2'' of
        Inl e \<Rightarrow> title_not_found i e
      | Inr title_element \<Rightarrow>
          (case el_text title_element of
             Inl e \<Rightarrow> title_not_found i e
           | Inr t \<Rightarrow> (strip t, [Print (''Title (Spanish): '' @ strip t)])))"

definition text_by_css :: "web_element \<Rightarrow> string \<Rightarrow> exn + string" where
  \<comment> \<open>\<^verbatim>\<open>article_element.find_element(By.CSS_SELECTOR, sel).text.strip()\<close>\<close>
  "text_by_css article_element sel =
     (case find_element article_element CSS_SELECTOR sel of
        Inl e \<Rightarrow> Inl e
      | Inr content_element \<Rightarrow>
          (case el_text content_element of Inl e \<Rightarrow> Inl e | Inr t \<Rightarrow> Inr (strip t)))"

definition scrape_content :: "web_element \<Rightarrow> string \<times> effect list" where
  "scrape_content article_element =
     (let article_content =
        (case text_by_css article_element ''p.c_d'' of
           Inr t \<Rightarrow> t
         | Inl _ \<Rightarrow>
             (case text_by_css article_element ''div.c_d_p'' of
                Inr t \<Rightarrow> t
              | Inl _ \<Rightarrow> ''Content summary not easily scraped from this section.''))
      in (article_content, [Print (''Content (Spanish): '' @ article_content)]))"

section \<open>Cover image (lines 205 to 274)\<close>

definition truthy :: "string option \<Rightarrow> bool" where
  \<comment> \<open>the truth value of a variable that holds \<^verbatim>\<open>None\<close> or a string\<close>
  "truthy v = (case v of None \<Rightarrow> False | Some s \<Rightarrow> s \<noteq> [])"

definition first_candidate :: "string \<Rightarrow> string" where
  \<comment> \<open>\<^verbatim>\<open>s.split(',')[0].strip().split(' ')[0]\<close>\<close>
  "first_candidate s = split_first CHR '' '' (strip (split_first CHR '','' s))"

fun scan_sources :: "web_element list \<Rightarrow> exn + string option" where
  \<comment> \<open>the loop of lines 223 to 228; \<open>Inr None\<close> when no source qualifies\<close>
  "scan_sources [] = Inr None"
| "scan_sources (source # sources) =
     (case get_attribute source ''srcset'' of
        Inl e \<Rightarrow> Inl e
      | Inr srcset \<Rightarrow>
          (case srcset of
             Some s \<Rightarrow>
               if s \<noteq> [] \<and> contains s ''http'' then Inr (Some (first_candidate s))
               else scan_sources sources
           | None \<Rightarrow> scan_sources sources))"

definition from_picture :: "web_element \<Rightarrow> web_element option \<times> string option" where
  \<comment> \<open>lines 219 to 232: the image element and the URL the attempt leaves behind; an
      exception anywhere inside ends the attempt\<close>
  "from_picture article_element =
     (case find_element article_element TAG_NAME ''picture'' of
        Inl _ \<Rightarrow> (None, None)
      | Inr picture_element \<Rightarrow>
          (case find_elements picture_element TAG_NAME ''source'' of
             Inl _ \<Rightarrow> (None, None)
           | Inr source_elements \<Rightarrow>
               (case scan_sources source_elements of
                  Inl _ \<Rightarrow> (None, None)
                | Inr article_image_url \<Rightarrow>
                    if \<not> truthy article_image_url then
                      (case find_element picture_element TAG_NAME ''img'' of
                         Inl _ \<Rightarrow> (None, article_image_url)
                       | Inr img \<Rightarrow> (Some img, article_image_url))
                    else (None, article_image_url))))"

definition find_image :: "web_element \<Rightarrow> web_element option \<times> string option" where
  \<comment> \<open>lines 208 to 239: \<open>img_element\<close> and \<open>article_image_url\<close> after the three attempts\<close>
  "find_image article_element =
     (case find_element article_element CSS_SELECTOR
             ''div.c_m img, figure img, img.c_m_e, img.c_d_m'' of
        Inr img \<Rightarrow> (Some img, None)
      | Inl _ \<Rightarrow>
          (case from_picture article_element of
             (Some img, article_image_url) \<Rightarrow> (Some img, article_image_url)
           | (None, article_image_url) \<Rightarrow>
               if \<not> truthy article_image_url then
                 (case find_element article_element TAG_NAME ''img'' of
                    Inl _ \<Rightarrow> (None, article_image_url)
                  | Inr img \<Rightarrow> (Some img, article_image_url))
               else (None, article_image_url)))"

fun read_src_attrs :: "web_element \<Rightarrow> string list \<Rightarrow> exn + string option" where
  \<comment> \<open>the loop of lines 244 to 248; \<open>Inr None\<close> when no attribute qualifies\<close>
  "read_src_attrs img_element [] = Inr None"
| "read_src_attrs img_element (attr # attrs) =
     (case get_attribute img_element attr of
        Inl e \<Rightarrow> Inl e
      | Inr temp_url \<Rightarrow>
          (case temp_url of
             Some s \<Rightarrow>
               if s \<noteq> [] \<and> contains s ''http'' then Inr (Some s)
               else read_src_attrs img_element attrs
           | None \<Rightarrow> read_src_attrs img_element attrs))"

definition possible_src_attrs :: "string list" where
  "possible_src_attrs = [''data-srcset'', ''data-src'', ''src'']"

definition resolve_image_url :: "web_element \<Rightarrow> string option \<times> exn option" where
  \<comment> \<open>lines 208 to 248: \<open>article_image_url\<close> when line 250 is reached, or when an
      exception leaves the block, and that exception\<close>
  "resolve_image_url article_element =
     (case find_image article_element of
        (None, article_image_url) \<Rightarrow> (article_image_url, None)
      | (Some img_element, article_image_url) \<Rightarrow>
          (case read_src_attrs img_element possible_src_attrs of
             Inl e \<Rightarrow> (article_image_url, Some e)
           | Inr None \<Rightarrow> (article_image_url, None)
           | Inr (Some temp_url) \<Rightarrow> (Some temp_url, None)))"

definition first_of_srcset :: "string \<Rightarrow> string" where
  \<comment> \<open>lines 252 and 253\<close>
  "first_of_srcset u = (if CHR '','' \<in> set u then first_candidate u else u)"

definition no_valid_cover :: effect where
  "no_valid_cover =
     Print ''No valid cover image URL found for this article after all attempts.''"

definition download_image ::
  "env \<Rightarrow> nat \<Rightarrow> string option \<Rightarrow> string option \<times> effect list \<times> exn option" where
  \<comment> \<open>lines 250 to 272: \<open>article_image_url\<close> afterwards, the effects, and the exception
      that leaves the block, if any\<close>
  "download_image ev i article_image_url =
     (case article_image_url of
        None \<Rightarrow> (None, [no_valid_cover], None)
      | Some u \<Rightarrow>
          if u \<noteq> [] \<and> startswith u ''http'' then
            (let url = first_of_srcset u;
                 img_path = IMAGES_DIR @ ''/'' @ ''article_'' @ str_nat (i + 1) @ ''_cover.jpg'';
                 es = [Print (''Attempting to download image from: '' @ url), HttpGet url]
             in case requests_get ev url of
                  Inl e \<Rightarrow> (Some url, es, Some e)
                | Inr response \<Rightarrow>
                    if status_code response = 200 then
                      (case open_wb ev img_path of
                         Inl e \<Rightarrow> (Some url, es, Some e)
                       | Inr _ \<Rightarrow>
                           (case content response of
                              Inl e \<Rightarrow> (Some url, es @ [FileOpen img_path], Some e)
                            | Inr bytes \<Rightarrow>
                                (case write_bytes ev img_path bytes of
                                   Inl e \<Rightarrow> (Some url, es @ [FileOpen img_path], Some e)
                                 | Inr _ \<Rightarrow>
                                     (Some url,
                                      es @ [FileOpen img_path, FileWrite img_path bytes,
                                            Print (''Cover image downloaded and saved to: '' @ img_path)],
                                      None))))
                    else
                      (Some url,
                       es @ [Print (''Failed to download image from '' @ url @ ''. Status code: ''
                                    @ str_nat (status_code response))],
                       None))
          else (Some u, [no_valid_cover], None))"

definition image_error :: "nat \<Rightarrow> exn \<Rightarrow> effect" where
  \<comment> \<open>the handler of lines 273 and 274\<close>
  "image_error i img_e =
     Print (''General error during image handling for article '' @ str_nat (i + 1) @ '': ''
            @ str_exn img_e)"

definition handle_image :: "env \<Rightarrow> nat \<Rightarrow> web_element \<Rightarrow> string option \<times> effect list" where
  \<comment> \<open>lines 206 to 274\<close>
  "handle_image ev i article_element =
     (case resolve_image_url article_element of
        (article_image_url, Some e) \<Rightarrow> (article_image_url, [image_error i e])
      | (article_image_url, None) \<Rightarrow>
          (case download_image ev i article_image_url of
             (url, es, Some e) \<Rightarrow> (url, es @ [image_error i e])
           | (url, es, None) \<Rightarrow> (url, es)))"

section \<open>Translation of the title (lines 277 to 290)\<close>

definition skipping_translation :: effect where
  "skipping_translation =
     Print ''Translation API not available or title not found, skipping translation for this article.''"

definition translate_header :: "env \<Rightarrow> string \<Rightarrow> string \<times> string list \<times> effect list" where
  \<comment> \<open>\<open>translated_title\<close>, what is appended to \<open>all_translated_headers\<close>, the effects\<close>
  "translate_header ev article_title =
     (case translate_client ev of
        Some client \<Rightarrow>
          if article_title \<noteq> ''Title not found'' then
            (case client article_title of
               Inr translated_title \<Rightarrow>
                 (translated_title, [translated_title],
                  [TranslateCall article_title,
                   Print (''Translated Title (English): '' @ translated_title)])
             | Inl e \<Rightarrow>
                 (''Translation failed'', [],
                  [TranslateCall article_title,
                   Print (''Error translating title '' @ [CHR 0x27] @ article_title @ [CHR 0x27]
                          @ '': '' @ str_exn e)]))
          else ([], [], [skipping_translation])
      | None \<Rightarrow> ([], [], [skipping_translation]))"

section \<open>One article, the loop, the pipeline (lines 151 to 323)\<close>

text \<open>
  The block of lines 181 to 297, the body of the outer \<^verbatim>\<open>try\<close>. A block may raise after
  it has changed something, so its result is what it appended to
  \<open>all_translated_headers\<close>, its effects, and then the record it appends to
  \<open>scraped_articles_data\<close> or the exception that left it. Here every collaborator is
  called inside a \<^verbatim>\<open>try\<close> of its own, and the block ends with the record.
\<close>

definition process_article ::
  "env \<Rightarrow> nat \<Rightarrow> web_element \<Rightarrow> string list \<times> effect list \<times> (exn + article_record)" where
  "process_article ev i article_element =
     (case scrape_title i article_element of (article_title, es1) \<Rightarrow>
      case scrape_content article_element of (article_content, es2) \<Rightarrow>
      case handle_image ev i article_element of (article_image_url, es3) \<Rightarrow>
      case translate_header ev article_title of (translated_title, new_headers, es4) \<Rightarrow>
        (new_headers, es1 @ es2 @ es3 @ es4,
         Inr \<lparr>title_spanish = article_title, content_spanish = article_content,
              image_url = article_image_url, title_english = translated_title\<rparr>))"

text \<open>
  The \<^verbatim>\<open>for\<close> loop of line 175 with the \<^verbatim>\<open>try\<close> of line 181 and its handler of lines 299
  to 301, over the block it guards. The state is \<open>scraped_articles_data\<close>,
  \<open>all_translated_headers\<close> and the effects so far.
\<close>

fun articles_loop ::
  "(nat \<Rightarrow> web_element \<Rightarrow> string list \<times> effect list \<times> (exn + article_record)) \<Rightarrow>
   nat \<Rightarrow> web_element list \<Rightarrow>
   article_record list \<times> string list \<times> effect list \<Rightarrow>
   article_record list \<times> string list \<times> effect list" where
  "articles_loop block i [] st = st"
| "articles_loop block i (article_element # rest) (scraped_articles_data, all_translated_headers, es) =
     (let es0 = es @ [Print ([CHR 0x0A] @ ''--- Processing Article '' @ str_nat (i + 1) @ '' ---'')]
      in case block i article_element of
           (new_headers, es1, Inr r) \<Rightarrow>
             articles_loop block (i + 1) rest
               (scraped_articles_data @ [r], all_translated_headers @ new_headers, es0 @ es1)
         | (new_headers, es1, Inl e) \<Rightarrow>
             articles_loop block (i + 1) rest
               (scraped_articles_data, all_translated_headers @ new_headers,
                es0 @ es1 @ [Print (''An unexpected error occurred while processing article ''
                                    @ str_nat (i + 1) @ '': '' @ str_exn e)]))"

definition print_repeated :: "(string \<times> nat) list \<Rightarrow> effect list" where
  \<comment> \<open>lines 316 to 321\<close>
  "print_repeated repeated_words =
     (if repeated_words \<noteq> [] then
        Print ''Words repeated more than twice across all translated headers:'' #
        map (\<lambda>(word, count).
               Print (''  - '' @ [CHR 0x27] @ word @ [CHR 0x27] @ '': '' @ str_nat count
                      @ '' occurrences'')) repeated_words
      else [Print ''No words repeated more than twice across all translated headers.''])"

text \<open>
  \<^verbatim>\<open>scrape_and_process_articles\<close> returns \<^verbatim>\<open>None\<close>. The model returns what the function
  holds when it returns: nothing after the timed-out wait, otherwise the records, the
  translated headers and, when there is a header, the table of repeated words.
\<close>

datatype scrape_outcome =
    TimedOut
  | Finished (records: "article_record list") (headers: "string list")
      (repeated: "(string \<times> nat) list option")

definition analyze_headers :: "string list \<Rightarrow> (string \<times> nat) list option \<times> effect list" where
  \<comment> \<open>lines 304 to 323\<close>
  "analyze_headers all_translated_headers =
     (if all_translated_headers \<noteq> [] then
        (let repeated_words = repeated_words_of all_translated_headers
         in (Some repeated_words,
             Print ([CHR 0x0A] @ ''--- Analyzing Translated Headers for Repeated Words ---'')
             # print_repeated repeated_words))
      else (None, [Print ([CHR 0x0A] @ ''No translated headers available for analysis.'')]))"

definition scrape_and_process_articles ::
  "env \<Rightarrow> driver \<Rightarrow> effect list \<times> (exn + scrape_outcome)" where
  "scrape_and_process_articles ev drv =
     (case drv_get drv OPINION_SECTION_URL of
        Inl e \<Rightarrow> ([], Inl e)
      | Inr _ \<Rightarrow>
     (case drv_current_url drv of
        Inl e \<Rightarrow> ([], Inl e)
      | Inr current_url \<Rightarrow>
     (let es0 = [Print (''Navigating to El Pa'' @ [CHR 0xED] @ ''s Opinion section: '' @ current_url)]
      in case drv_wait_article drv of
        Inl e \<Rightarrow>
          (es0 @ [Print (''Timeout waiting for articles to load: '' @ str_exn e)], Inr TimedOut)
      | Inr _ \<Rightarrow>
     (let es1 = es0 @ [Print ''Articles loaded on the page.'']
      in case drv_find_articles drv of
        Inl e \<Rightarrow> (es1, Inl e)
      | Inr articles_elements \<Rightarrow>
     (let es2 = es1 @ [Print (''Found '' @ str_nat (length articles_elements) @ '' article elements.'')]
      in case articles_loop (process_article ev) 0 (take 5 articles_elements) ([], [], []) of
        (scraped_articles_data, all_translated_headers, es3) \<Rightarrow>
     (case analyze_headers all_translated_headers of
        (repeated_words, es4) \<Rightarrow>
          (es2 @ es3 @ es4,
           Inr (Finished scraped_articles_data all_translated_headers repeated_words))))))))"

section \<open>A BrowserStack session (lines 74 to 147 and 326 to 343)\<close>

type_synonym config = "(string \<times> string) list"

definition dict_get :: "config \<Rightarrow> string \<Rightarrow> string \<Rightarrow> string" where
  \<comment> \<open>\<^verbatim>\<open>d.get(k, default)\<close>\<close>
  "dict_get d k dflt = (case map_of d k of Some v \<Rightarrow> v | None \<Rightarrow> dflt)"

definition dict_item :: "config \<Rightarrow> string \<Rightarrow> exn + string" where
  \<comment> \<open>\<^verbatim>\<open>d[k]\<close>\<close>
  "dict_item d k = (case map_of d k of Some v \<Rightarrow> Inr v | None \<Rightarrow> Inl (KeyError k))"

definition device_label :: "config \<Rightarrow> string" where
  \<comment> \<open>\<^verbatim>\<open>config.get('device', config.get('os_version', 'Desktop'))\<close>\<close>
  "device_label cfg = dict_get cfg ''device'' (dict_get cfg ''os_version'' ''Desktop'')"

definition optional_item :: "config \<Rightarrow> string \<Rightarrow> string \<Rightarrow> (string \<times> string) list" where
  \<comment> \<open>\<^verbatim>\<open>if k in browser_config: bstack_options[k'] = browser_config[k]\<close>\<close>
  "optional_item cfg k k' = (case map_of cfg k of Some v \<Rightarrow> [(k', v)] | None \<Rightarrow> [])"

definition get_webdriver_browserstack :: "env \<Rightarrow> config \<Rightarrow> effect list \<times> (exn + driver)" where
  "get_webdriver_browserstack ev browser_config =
     (case dict_item browser_config ''browserName'' of
        Inl e \<Rightarrow> ([], Inl e)
      | Inr browserName \<Rightarrow>
     (let es0 = [Print (''Initializing BrowserStack WebDriver for: '' @ browserName @ '' on ''
                        @ dict_get browser_config ''os'' ''N/A'' @ '' ''
                        @ dict_get browser_config ''os_version'' ''N/A'' @ ''...'')]
      in if BROWSERSTACK_USERNAME ev = [] \<or> BROWSERSTACK_ACCESS_KEY ev = [] then
           (es0 @ [Print ''ERROR: BrowserStack credentials are not set. Please restart the script and provide them.''],
            Inl (ValueError ''BrowserStack credentials missing.''))
         else
     (let options =
            \<lparr>browser_name = lower (dict_get browser_config ''browserName'' ''chrome''),
             browser_version = map_of browser_config ''browserVersion'',
             bstack_options =
               [(''userName'', BROWSERSTACK_USERNAME ev),
                (''accessKey'', BROWSERSTACK_ACCESS_KEY ev),
                (''projectName'', ''El Pais Scraper''),
                (''buildName'', ''Selenium Python Demo2''),
                (''sessionName'', ''El Pais Opinion - '' @ browserName @ '' (''
                                  @ device_label browser_config @ '')''),
                (''seleniumVersion'', ''4.0.0'')]
               @ optional_item browser_config ''os'' ''os''
               @ optional_item browser_config ''os_version'' ''osVersion''
               @ optional_item browser_config ''device'' ''deviceName''
               @ optional_item browser_config ''realMobile'' ''realMobile''\<rparr>;
          command_executor =
            ''https://'' @ BROWSERSTACK_USERNAME ev @ '':'' @ BROWSERSTACK_ACCESS_KEY ev
            @ ''@hub-cloud.browserstack.com/wd/hub''
      in case webdriver_Remote ev command_executor options of
           Inl e \<Rightarrow> (es0, Inl e)
         | Inr drv \<Rightarrow>
             (es0 @ [Print (''BrowserStack WebDriver initialized for: '' @ browserName @ ''.'')],
              Inr drv))))"

definition status_passed :: string where
  \<open>status_passed =
     ''browserstack_executor: {"action": "setSessionStatus", "arguments": {"status": "passed", "reason": "Test completed successfully"}}''\<close>

definition status_failed :: "string \<Rightarrow> string" where
  \<open>status_failed error_message =
     ''browserstack_executor: {"action": "setSessionStatus", "arguments": {"status": "failed", "reason": "Test failed: ''
     @ error_message @ ''"}}''\<close>

definition test_label :: "config \<Rightarrow> exn + string" where
  \<comment> \<open>\<^verbatim>\<open>{config['browserName']} ({config.get('device', config.get('os_version', 'Desktop'))})\<close>\<close>
  "test_label cfg =
     (case dict_item cfg ''browserName'' of
        Inl e \<Rightarrow> Inl e
      | Inr browserName \<Rightarrow> Inr (browserName @ '' ('' @ device_label cfg @ '')''))"

text \<open>
  The \<^verbatim>\<open>try\<close> block of lines 329 to 333: \<open>driver\<close> when the block is left, the effects,
  and the exception that left it, if any.
\<close>

definition test_body :: "env \<Rightarrow> config \<Rightarrow> driver option \<times> effect list \<times> exn option" where
  "test_body ev cfg =
     (case get_webdriver_browserstack ev cfg of
        (es0, Inl e) \<Rightarrow> (None, es0, Some e)
      | (es0, Inr drv) \<Rightarrow>
          (case scrape_and_process_articles ev drv of
             (es1, Inl e) \<Rightarrow> (Some drv, es0 @ es1, Some e)
           | (es1, Inr _) \<Rightarrow>
               (case drv_execute_script drv status_passed of
                  Inl e \<Rightarrow> (Some drv, es0 @ es1 @ [ExecuteScript status_passed], Some e)
                | Inr _ \<Rightarrow>
                    (case test_label cfg of
                       Inl e \<Rightarrow> (Some drv, es0 @ es1 @ [ExecuteScript status_passed], Some e)
                     | Inr label \<Rightarrow>
                         (Some drv,
                          es0 @ es1 @ [ExecuteScript status_passed,
                                       Print (''BrowserStack test on '' @ label @ '' PASSED.'')],
                          None)))))"

text \<open>The handler of lines 334 to 339: its effects and the exception that leaves it, if any.\<close>

definition test_failed :: "config \<Rightarrow> driver option \<Rightarrow> exn \<Rightarrow> effect list \<times> exn option" where
  "test_failed cfg drv e =
     (let error_message = replace_char (CHR 0x22) [CHR 0x5C, CHR 0x22] (str_exn e);
          report =
            (case drv of
               None \<Rightarrow> ([], None)
             | Some d \<Rightarrow>
                 (case drv_execute_script d (status_failed error_message) of
                    Inl e' \<Rightarrow> ([ExecuteScript (status_failed error_message)], Some e')
                  | Inr _ \<Rightarrow> ([ExecuteScript (status_failed error_message)], None)))
      in case report of
           (es, Some e') \<Rightarrow> (es, Some e')
         | (es, None) \<Rightarrow>
             (case test_label cfg of
                Inl e' \<Rightarrow> (es, Some e')
              | Inr label \<Rightarrow>
                  (es @ [Print (''BrowserStack test on '' @ label @ '' FAILED: '' @ str_exn e)],
                   None)))"

text \<open>The \<^verbatim>\<open>finally\<close> block of lines 340 to 343.\<close>

definition test_finally :: "config \<Rightarrow> driver option \<Rightarrow> effect list \<times> exn option" where
  "test_finally cfg drv =
     (case drv of
        None \<Rightarrow> ([], None)
      | Some d \<Rightarrow>
          (case drv_quit d of
             Inl e \<Rightarrow> ([Quit], Some e)
           | Inr _ \<Rightarrow>
               (case test_label cfg of
                  Inl e \<Rightarrow> ([Quit], Some e)
                | Inr label \<Rightarrow>
                    ([Quit, Print (''BrowserStack WebDriver for '' @ label @ '' closed.'')], None))))"

definition run_browserstack_test :: "env \<Rightarrow> config \<Rightarrow> effect list \<times> (exn + unit)" where
  "run_browserstack_test ev cfg =
     (case test_body ev cfg of
        (drv, es0, raised) \<Rightarrow>
     (case (case raised of None \<Rightarrow> ([], None) | Some e \<Rightarrow> test_failed cfg drv e) of
        (es1, pending) \<Rightarrow>
     (case test_finally cfg drv of
        (es2, Some e) \<Rightarrow> (es0 @ es1 @ es2, Inl e)
      | (es2, None) \<Rightarrow>
          (es0 @ es1 @ es2, (case pending of Some e \<Rightarrow> Inl e | None \<Rightarrow> Inr ())))))"

definition scripts_of :: "effect list \<Rightarrow> string list" where
  \<comment> \<open>the scripts a run sent to \<^verbatim>\<open>driver.execute_script\<close>, in order\<close>
  "scripts_of es = concat (map (\<lambda>x. case x of ExecuteScript s \<Rightarrow> [s] | _ \<Rightarrow> []) es)"

definition files_of :: "effect list \<Rightarrow> string list" where
  \<comment> \<open>the paths a run opened for writing\<close>
  "files_of es =
     concat (map (\<lambda>x. case x of FileOpen p \<Rightarrow> [p] | FileWrite p _ \<Rightarrow> [p] | _ \<Rightarrow> []) es)"

section \<open>Effects of a page and effects of a session\<close>

definition page_effect :: "effect \<Rightarrow> bool" where
  \<comment> \<open>not a call of \<^verbatim>\<open>driver.execute_script\<close> or \<^verbatim>\<open>driver.quit\<close>\<close>
  "page_effect x = (case x of ExecuteScript _ \<Rightarrow> False | Quit \<Rightarrow> False | _ \<Rightarrow> True)"

text \<open>
  What the loop of \<^verbatim>\<open>scrape_and_process_articles\<close> appends to \<open>scraped_articles_data\<close>
  and to \<open>all_translated_headers\<close> for the nodes \<open>xs\<close>, numbered from \<open>i\<close>.
\<close>

definition records_from :: "env \<Rightarrow> nat \<Rightarrow> web_element list \<Rightarrow> article_record list" where
  "records_from ev i xs = fst (articles_loop (process_article ev) i xs ([], [], []))"

definition headers_from :: "env \<Rightarrow> nat \<Rightarrow> web_element list \<Rightarrow> string list" where
  "headers_from ev i xs = fst (snd (articles_loop (process_article ev) i xs ([], [], [])))"



section \<open>Concrete inputs\<close>

definition storm_headlines :: "string list" where
  "storm_headlines =
     [''Storm hits city'', ''City storm warning issued'', ''Storm storm everywhere city'']"

definition text_element :: "string \<Rightarrow> web_element" where
  "text_element t = WebElement (Inr t) [] [] []"

definition img_element_with :: "(string \<times> string) list \<Rightarrow> web_element" where
  "img_element_with attrs = WebElement (Inr []) (map (\<lambda>(k, v). (k, Inr (Some v))) attrs) [] []"

definition media_css :: string where
  "media_css = ''div.c_m img, figure img, img.c_m_e, img.c_d_m''"

definition article_element_with :: "string \<Rightarrow> web_element option \<Rightarrow> web_element" where
  \<comment> \<open>an article with a heading and, when given, an image in its media container\<close>
  "article_element_with title img =
     WebElement (Inr [])
       []
       (((TAG_NAME, ''h2''), Inr (text_element title))
        # (case img of None \<Rightarrow> []
           | Some e \<Rightarrow> [((CSS_SELECTOR, media_css), Inr e), ((TAG_NAME, ''img''), Inr e)]))
       []"

definition bare_article :: web_element where
  \<comment> \<open>an article with no heading, no summary and no image\<close>
  "bare_article = WebElement (Inr []) [] [] []"

definition srcset_img :: web_element where
  "srcset_img = img_element_with [(''data-srcset'', ''http://a.jpg 1x, http://b.jpg 2x'')]"

definition cover_img :: web_element where
  "cover_img = img_element_with [(''src'', ''https://imagenes.elpais.com/foto.jpg'')]"

definition relative_img :: web_element where
  "relative_img =
     img_element_with [(''src'', ''/resizer/foto.jpg?src=https://imagenes.elpais.com/foto.jpg'')]"

definition page_driver :: "web_element list \<Rightarrow> driver" where
  \<comment> \<open>a session whose every call returns, on a page with the given articles\<close>
  "page_driver arts =
     \<lparr>drv_get = (\<lambda>_. Inr ()), drv_current_url = Inr OPINION_SECTION_URL,
      drv_wait_article = Inr (), drv_find_articles = Inr arts,
      drv_execute_script = (\<lambda>_. Inr ()), drv_quit = Inr ()\<rparr>"

definition timeout_driver :: driver where
  \<comment> \<open>a session on a page where no article appears within the wait\<close>
  "timeout_driver = (page_driver [])\<lparr>drv_wait_article := Inl (Exception ''Message: '')\<rparr>"

definition echo_client :: "string \<Rightarrow> exn + string" where
  \<comment> \<open>a translation client that fails on the title Lluvia\<close>
  "echo_client t =
     (if t = ''Lluvia'' then Inl (Exception ''503 Service Unavailable'')
      else Inr (''EN '' @ t))"

definition grid_env :: "nat \<Rightarrow> driver \<Rightarrow> env" where
  \<comment> \<open>credentials set, a grid that hands out the given session, a translation client,
      and an image server that answers every request with the given status\<close>
  "grid_env status drv =
     \<lparr>BROWSERSTACK_USERNAME = ''user'', BROWSERSTACK_ACCESS_KEY = ''key'',
      translate_client = Some echo_client,
      requests_get = (\<lambda>_. Inr \<lparr>status_code = status, content = Inr ''JFIF''\<rparr>),
      open_wb = (\<lambda>_. Inr ()), write_bytes = (\<lambda>_ _. Inr ()),
      webdriver_Remote = (\<lambda>_ _. Inr drv)\<rparr>"

definition offline_env :: env where
  \<comment> \<open>no translation client\<close>
  "offline_env = (grid_env 200 (page_driver []))\<lparr>translate_client := None\<rparr>"

definition unreachable_env :: env where
  \<comment> \<open>every image request times out\<close>
  "unreachable_env =
     (grid_env 200 (page_driver []))\<lparr>requests_get := (\<lambda>_. Inl (Exception ''Read timed out.''))\<rparr>"

definition no_credentials_env :: env where
  "no_credentials_env = (grid_env 200 (page_driver []))\<lparr>BROWSERSTACK_USERNAME := []\<rparr>"

definition chrome_config :: config where
  \<comment> \<open>the first configuration of line 376\<close>
  "chrome_config =
     [(''browserName'', ''chrome''), (''browserVersion'', ''latest''), (''os'', ''Windows''),
      (''os_version'', ''10'')]"

definition three_articles :: "web_element list" where
  "three_articles =
     [article_element_with ''Titular'' None, article_element_with ''Lluvia'' None,
      article_element_with ''Tormenta'' None]"


section \<open>Properties\<close>

subsection \<open>Evaluation on concrete text\<close>

lemmas char_class_defs =
  is_alpha_def is_word_def latin1_alnum_def ascii_uppercase_def ascii_lowercase_def digits_def

lemmas analysis_defs =
  repeated_words_of_def all_words_of_def Counter_def re_findall_words_def lower_def
  lower_char_def

lemma storm_counts:
  "Counter (all_words_of storm_headlines) =
     [(''storm'', 4), (''hits'', 1), (''city'', 3), (''warning'', 1), (''issued'', 1),
      (''everywhere'', 1)]"
  by (simp add: storm_headlines_def analysis_defs char_class_defs)

lemma first_candidate_srcset:
  "first_candidate ''http://a.jpg 1x, http://b.jpg 2x'' = ''http://a.jpg''"
  by (simp add: first_candidate_def split_first_def strip_def is_space_def)

subsection \<open>What the steps of one article emit\<close>

lemma page_effect_simps [simp]:
  "page_effect (Print s)" "page_effect (TranslateCall s)" "page_effect (HttpGet s)"
  "page_effect (FileOpen s)" "page_effect (FileWrite s b)"
  "\<not> page_effect (ExecuteScript s)" "\<not> page_effect Quit"
  by (simp_all add: page_effect_def)

text \<open>
  The title and the summary only print; the image step prints, sends its one request and
  writes its one file. Stated for any property of effects that these have.
\<close>

lemma scrape_title_effects:
  assumes "\<And>s. P (Print s)"
  shows "list_all P (snd (scrape_title i a))"
  by (simp add: scrape_title_def title_not_found_def assms split: sum.splits)

lemma scrape_content_effects:
  assumes "\<And>s. P (Print s)"
  shows "list_all P (snd (scrape_content a))"
  by (simp add: scrape_content_def Let_def assms)

lemma download_image_effects:
  assumes "\<And>s. P (Print s)" and "\<And>s. P (HttpGet s)" and "\<And>s. P (FileOpen s)"
    and "\<And>s b. P (FileWrite s b)"
  shows "list_all P (fst (snd (download_image ev i u)))"
  by (simp add: download_image_def Let_def no_valid_cover_def assms
      split: option.splits sum.splits)

lemma handle_image_effects:
  assumes "\<And>s. P (Print s)" and "\<And>s. P (HttpGet s)" and "\<And>s. P (FileOpen s)"
    and "\<And>s b. P (FileWrite s b)"
  shows "list_all P (snd (handle_image ev i a))"
proof -
  obtain u x where r: "resolve_image_url a = (u, x)"
    by (cases "resolve_image_url a")
  obtain v es y where d: "download_image ev i u = (v, es, y)"
    by (cases "download_image ev i u")
  have "list_all P es"
    using download_image_effects [of P ev i u] assms d by simp
  then show ?thesis
    by (simp add: handle_image_def r d image_error_def assms split: option.splits)
qed

lemma page_scrape_title: "list_all page_effect (snd (scrape_title i a))"
  by (rule scrape_title_effects) simp

lemma page_scrape_content: "list_all page_effect (snd (scrape_content a))"
  by (rule scrape_content_effects) simp

lemma page_handle_image: "list_all page_effect (snd (handle_image ev i a))"
  by (rule handle_image_effects) simp_all

lemma page_translate_header: "list_all page_effect (snd (snd (translate_header ev t)))"
  by (simp add: translate_header_def skipping_translation_def split: option.splits sum.splits)

text \<open>The block of one article written out: it ends with the record, whatever the page.\<close>

lemma process_article_record:
  "process_article ev i a =
     (fst (snd (translate_header ev (fst (scrape_title i a)))),
      snd (scrape_title i a) @ snd (scrape_content a) @ snd (handle_image ev i a)
        @ snd (snd (translate_header ev (fst (scrape_title i a)))),
      Inr \<lparr>title_spanish = fst (scrape_title i a), content_spanish = fst (scrape_content a),
           image_url = fst (handle_image ev i a),
           title_english = fst (translate_header ev (fst (scrape_title i a)))\<rparr>)"
  by (simp add: process_article_def split: prod.splits)

lemma page_process_article: "list_all page_effect (fst (snd (process_article ev i a)))"
  by (simp add: process_article_record page_scrape_title page_scrape_content page_handle_image
      page_translate_header)

subsection \<open>The loop\<close>

lemma articles_loop_acc:
  "articles_loop block i xs (d, h, es) =
     (case articles_loop block i xs ([], [], []) of (d', h', es') \<Rightarrow> (d @ d', h @ h', es @ es'))"
proof (induction xs arbitrary: i d h es)
  case Nil
  show ?case by simp
next
  case (Cons a xs)
  obtain hs es1 r where b: "block i a = (hs, es1, r)"
    by (cases "block i a")
  show ?case
  proof (cases r)
    case (Inl e)
    show ?thesis
      apply (simp add: b Inl Let_def)
      apply (subst Cons.IH)
      apply (subst (2) Cons.IH)
      apply (simp split: prod.splits)
      done
  next
    case (Inr rec)
    show ?thesis
      apply (simp add: b Inr Let_def)
      apply (subst Cons.IH)
      apply (subst (2) Cons.IH)
      apply (simp split: prod.splits)
      done
  qed
qed

lemma articles_loop_page:
  assumes "\<And>j a. list_all page_effect (fst (snd (block j a)))"
  shows "list_all page_effect es \<Longrightarrow>
    list_all page_effect (snd (snd (articles_loop block i xs (d, h, es))))"
proof (induction xs arbitrary: i d h es)
  case Nil
  then show ?case by simp
next
  case (Cons a xs)
  obtain hs es1 r where b: "block i a = (hs, es1, r)"
    by (cases "block i a")
  have p: "list_all page_effect es1"
    using assms [of i a] b by simp
  show ?case
    by (cases r) (simp_all add: b Let_def Cons.IH Cons.prems p)
qed

text \<open>What the loop appends, node by node.\<close>

lemma articles_loop_records:
  "fst (articles_loop block i xs ([], [], [])) =
     concat (map (\<lambda>(j, a). case snd (snd (block j a)) of Inr r \<Rightarrow> [r] | Inl e \<Rightarrow> [])
                 (enumerate i xs))"
proof (induction xs arbitrary: i)
  case Nil
  show ?case by simp
next
  case (Cons a xs)
  obtain hs es1 r where b: "block i a = (hs, es1, r)"
    by (cases "block i a")
  show ?case
  proof (cases r)
    case (Inl e)
    show ?thesis
      apply (simp add: b Inl Let_def)
      apply (subst articles_loop_acc)
      apply (simp add: Cons.IH [symmetric] split: prod.splits)
      done
  next
    case (Inr rec)
    show ?thesis
      apply (simp add: b Inr Let_def)
      apply (subst articles_loop_acc)
      apply (simp add: Cons.IH [symmetric] split: prod.splits)
      done
  qed
qed

lemma articles_loop_headers:
  "fst (snd (articles_loop block i xs ([], [], []))) =
     concat (map (\<lambda>(j, a). fst (block j a)) (enumerate i xs))"
proof (induction xs arbitrary: i)
  case Nil
  show ?case by simp
next
  case (Cons a xs)
  obtain hs es1 r where b: "block i a = (hs, es1, r)"
    by (cases "block i a")
  show ?case
  proof (cases r)
    case (Inl e)
    show ?thesis
      apply (simp add: b Inl Let_def)
      apply (subst articles_loop_acc)
      apply (simp add: Cons.IH [symmetric] split: prod.splits)
      done
  next
    case (Inr rec)
    show ?thesis
      apply (simp add: b Inr Let_def)
      apply (subst articles_loop_acc)
      apply (simp add: Cons.IH [symmetric] split: prod.splits)
      done
  qed
qed


subsection \<open>The pipeline\<close>

lemma page_analyze_headers: "list_all page_effect (snd (analyze_headers hs))"
  by (simp add: analyze_headers_def Let_def print_repeated_def list_all_iff split: prod.splits)

lemma scrape_finished:
  assumes "drv_get drv OPINION_SECTION_URL = Inr ()" and "drv_current_url drv = Inr u"
    and "drv_wait_article drv = Inr ()" and "drv_find_articles drv = Inr arts"
  shows "snd (scrape_and_process_articles ev drv) =
     Inr (Finished
            (fst (articles_loop (process_article ev) 0 (take 5 arts) ([], [], [])))
            (fst (snd (articles_loop (process_article ev) 0 (take 5 arts) ([], [], []))))
            (fst (analyze_headers
               (fst (snd (articles_loop (process_article ev) 0 (take 5 arts) ([], [], [])))))))"
  using assms
  by (simp add: scrape_and_process_articles_def Let_def split: prod.splits)

lemma scrape_timed_out:
  assumes "drv_get drv OPINION_SECTION_URL = Inr ()" and "drv_current_url drv = Inr u"
    and "drv_wait_article drv = Inl e"
  shows "scrape_and_process_articles ev drv =
     ([Print (''Navigating to El Pa'' @ [CHR 0xED] @ ''s Opinion section: '' @ u),
       Print (''Timeout waiting for articles to load: '' @ str_exn e)],
      Inr TimedOut)"
  using assms
  by (simp add: scrape_and_process_articles_def Let_def)

lemma page_scrape: "list_all page_effect (fst (scrape_and_process_articles ev drv))"
proof (cases "drv_find_articles drv")
  case (Inl e)
  then show ?thesis
    by (simp add: scrape_and_process_articles_def Let_def split: sum.splits)
next
  case (Inr arts)
  obtain d h es where
    l: "articles_loop (process_article ev) 0 (take 5 arts) ([], [], []) = (d, h, es)"
    by (cases "articles_loop (process_article ev) 0 (take 5 arts) ([], [], [])")
  have "list_all page_effect
          (snd (snd (articles_loop (process_article ev) 0 (take 5 arts) ([], [], []))))"
    by (rule articles_loop_page) (simp_all add: page_process_article)
  then have e: "list_all page_effect es"
    by (simp add: l)
  obtain rep es4 where a: "analyze_headers h = (rep, es4)"
    by (cases "analyze_headers h")
  have e4: "list_all page_effect es4"
    using page_analyze_headers [of h] a by simp
  show ?thesis
    by (simp add: scrape_and_process_articles_def Let_def Inr l a e e4 split: sum.splits)
qed

lemma page_get_webdriver: "list_all page_effect (fst (get_webdriver_browserstack ev cfg))"
  by (simp add: get_webdriver_browserstack_def Let_def split: sum.splits)

lemma count_quit_page: "list_all page_effect es \<Longrightarrow> count_list es Quit = 0"
  by (induction es) auto

lemma scripts_of_page: "list_all page_effect es \<Longrightarrow> scripts_of es = []"
  by (induction es) (auto simp: scripts_of_def split: effect.splits)

lemma scripts_of_append: "scripts_of (xs @ ys) = scripts_of xs @ scripts_of ys"
  by (simp add: scripts_of_def)

subsection \<open>The sample articles\<close>

lemma resolve_cover:
  "resolve_image_url (article_element_with t (Some cover_img))
     = (Some ''https://imagenes.elpais.com/foto.jpg'', None)"
  by (simp add: resolve_image_url_def find_image_def find_element_def article_element_with_def
      media_css_def possible_src_attrs_def get_attribute_def cover_img_def img_element_with_def
      startswith_def)

lemma resolve_relative:
  "resolve_image_url (article_element_with t (Some relative_img))
     = (Some ''/resizer/foto.jpg?src=https://imagenes.elpais.com/foto.jpg'', None)"
  by (simp add: resolve_image_url_def find_image_def find_element_def article_element_with_def
      media_css_def possible_src_attrs_def get_attribute_def relative_img_def img_element_with_def
      startswith_def)

lemma title_of_article: "fst (scrape_title i (article_element_with t img)) = strip t"
  by (simp add: scrape_title_def find_element_def article_element_with_def text_element_def)

lemma content_of_article:
  "fst (scrape_content (article_element_with t (Some img)))
     = ''Content summary not easily scraped from this section.''"
  by (simp add: scrape_content_def text_by_css_def find_element_def article_element_with_def
      media_css_def Let_def)

lemma strip_Titular: "strip ''Titular'' = ''Titular''"
  by (simp add: strip_def is_space_def)


subsection \<open>Records and headers, node by node\<close>

lemma records_from_append:
  "records_from ev i (xs @ ys) = records_from ev i xs @ records_from ev (i + length xs) ys"
  by (simp only: records_from_def articles_loop_records) (simp add: enumerate_append_eq)

lemma headers_from_append:
  "headers_from ev i (xs @ ys) = headers_from ev i xs @ headers_from ev (i + length xs) ys"
  by (simp only: headers_from_def articles_loop_headers) (simp add: enumerate_append_eq)

lemma records_from_Cons:
  "records_from ev i (a # xs) =
     \<lparr>title_spanish = fst (scrape_title i a), content_spanish = fst (scrape_content a),
      image_url = fst (handle_image ev i a),
      title_english = fst (translate_header ev (fst (scrape_title i a)))\<rparr>
     # records_from ev (Suc i) xs"
  by (simp only: records_from_def articles_loop_records) (simp add: process_article_record)

lemma headers_from_Cons:
  "headers_from ev i (a # xs) =
     fst (snd (translate_header ev (fst (scrape_title i a)))) @ headers_from ev (Suc i) xs"
  by (simp only: headers_from_def articles_loop_headers) (simp add: process_article_record)


lemma headers_from_Nil: "headers_from ev i [] = []"
  by (simp add: headers_from_def)


lemma scrape_finished_from:
  assumes "drv_get drv OPINION_SECTION_URL = Inr ()" and "drv_current_url drv = Inr u"
    and "drv_wait_article drv = Inr ()" and "drv_find_articles drv = Inr arts"
  shows "snd (scrape_and_process_articles ev drv) =
     Inr (Finished (records_from ev 0 (take 5 arts)) (headers_from ev 0 (take 5 arts))
            (fst (analyze_headers (headers_from ev 0 (take 5 arts)))))"
  unfolding records_from_def headers_from_def using assms by (rule scrape_finished)





subsection \<open>The session\<close>

lemma acquired_label:
  assumes "get_webdriver_browserstack ev cfg = (es, Inr drv)"
  shows "\<exists>l. test_label cfg = Inr l"
  using assms
  by (auto simp add: get_webdriver_browserstack_def test_label_def Let_def
      split: sum.splits if_splits)

lemma count_quit_append: "count_list (xs @ ys) Quit = count_list xs Quit + count_list ys Quit"
  by (induction xs) auto

lemma count_quit_scrape: "count_list (fst (scrape_and_process_articles ev drv)) Quit = 0"
  by (rule count_quit_page) (rule page_scrape)

lemma count_quit_acquire: "count_list (fst (get_webdriver_browserstack ev cfg)) Quit = 0"
  by (rule count_quit_page) (rule page_get_webdriver)

lemma test_body_acquired:
  assumes "get_webdriver_browserstack ev cfg = (es, Inr drv)"
  shows "\<exists>es1 x. test_body ev cfg = (Some drv, es1, x) \<and> count_list es1 Quit = 0"
proof -
  have a: "count_list es Quit = 0"
    using count_quit_acquire [of ev cfg] assms by simp
  obtain es2 r where s: "scrape_and_process_articles ev drv = (es2, r)"
    by (cases "scrape_and_process_articles ev drv")
  have b: "count_list es2 Quit = 0"
    using count_quit_scrape [of ev drv] s by simp
  show ?thesis
    by (simp add: test_body_def assms s a b count_quit_append split: sum.splits)
qed

lemma test_body_not_acquired:
  assumes "get_webdriver_browserstack ev cfg = (es, Inl e)"
  shows "test_body ev cfg = (None, es, Some e) \<and> count_list es Quit = 0"
  using count_quit_acquire [of ev cfg] assms by (simp add: test_body_def)

lemma count_quit_failed: "count_list (fst (test_failed cfg drv e)) Quit = 0"
  by (simp add: test_failed_def Let_def split: option.splits sum.splits)

lemma acquire_chrome:
  "snd (get_webdriver_browserstack (grid_env status drv) chrome_config) = Inr drv"
  by (simp add: get_webdriver_browserstack_def dict_item_def chrome_config_def grid_env_def
      Let_def)

lemma acquire_no_credentials:
  "snd (get_webdriver_browserstack no_credentials_env chrome_config)
     = Inl (ValueError ''BrowserStack credentials missing.'')"
  by (simp add: get_webdriver_browserstack_def dict_item_def chrome_config_def
      no_credentials_env_def grid_env_def Let_def)

lemma timeout_run:
  assumes "snd (get_webdriver_browserstack ev cfg) = Inr drv"
    and "drv_get drv OPINION_SECTION_URL = Inr ()" and "drv_current_url drv = Inr u"
    and "drv_wait_article drv = Inl e" and "drv_execute_script drv status_passed = Inr ()"
  shows "scripts_of (fst (run_browserstack_test ev cfg)) = [status_passed]"
    and "drv_quit drv = Inr () \<Longrightarrow> snd (run_browserstack_test ev cfg) = Inr ()"
proof -
  obtain es where acq: "get_webdriver_browserstack ev cfg = (es, Inr drv)"
    using assms(1) by (cases "get_webdriver_browserstack ev cfg") simp
  obtain l where l: "test_label cfg = Inr l"
    using acquired_label [OF acq] by blast
  have a: "scripts_of es = []"
    using scripts_of_page [OF page_get_webdriver [of ev cfg]] acq by simp
  have b: "test_body ev cfg =
     (Some drv,
      es @ [Print (''Navigating to El Pa'' @ [CHR 0xED] @ ''s Opinion section: '' @ u),
            Print (''Timeout waiting for articles to load: '' @ str_exn e)]
         @ [ExecuteScript status_passed, Print (''BrowserStack test on '' @ l @ '' PASSED.'')],
      None)"
    by (simp add: test_body_def acq scrape_timed_out [OF assms(2,3,4)] assms(5) l)
  show "scripts_of (fst (run_browserstack_test ev cfg)) = [status_passed]"
    by (simp add: run_browserstack_test_def b test_finally_def l scripts_of_append a
        split: sum.splits) (simp add: scripts_of_def)
  show "drv_quit drv = Inr () \<Longrightarrow> snd (run_browserstack_test ev cfg) = Inr ()"
    by (simp add: run_browserstack_test_def b test_finally_def l)
qed

lemma timeout_driver_calls:
  "drv_get timeout_driver OPINION_SECTION_URL = Inr ()"
  "drv_current_url timeout_driver = Inr OPINION_SECTION_URL"
  "drv_wait_article timeout_driver = Inl (Exception ''Message: '')"
  "drv_execute_script timeout_driver status_passed = Inr ()"
  "drv_quit timeout_driver = Inr ()"
  by (simp_all add: timeout_driver_def page_driver_def)

subsection \<open>The claims\<close>

text \<open>
  C1 (as stated, refuted). The claim gives the table for the three storm headlines as
  storm 3, city 3. The third headline holds "storm" twice, so the analysis counts it four
  times; the table it builds is not the claimed one.
\<close>

theorem C1_storm_table_counterexample:
  "map_of (repeated_words_of storm_headlines) \<noteq> map_of [(''storm'', 3), (''city'', 3)]"
proof
  assume "map_of (repeated_words_of storm_headlines) = map_of [(''storm'', 3), (''city'', 3)]"
  then have "map_of (repeated_words_of storm_headlines) ''storm''
             = map_of [(''storm'', 3), (''city'', 3)] ''storm''"
    by simp
  then show False
    by (simp add: repeated_words_of_def storm_counts)
qed

text \<open>
  C1 (amended). For the three storm headlines the analysis yields exactly the table
  storm 4, city 3, in this order; "warning" and "issued" are counted once each and are
  not in the table.
\<close>

theorem C1_storm_table:
  "repeated_words_of storm_headlines = [(''storm'', 4), (''city'', 3)]
   \<and> fst (analyze_headers storm_headlines) = Some [(''storm'', 4), (''city'', 3)]
   \<and> map_of (Counter (all_words_of storm_headlines)) ''warning'' = Some 1
   \<and> map_of (Counter (all_words_of storm_headlines)) ''issued'' = Some 1
   \<and> map_of (repeated_words_of storm_headlines) ''warning'' = None
   \<and> map_of (repeated_words_of storm_headlines) ''issued'' = None"
proof -
  have r: "repeated_words_of storm_headlines = [(''storm'', 4), (''city'', 3)]"
    by (simp add: repeated_words_of_def storm_counts)
  have a: "fst (analyze_headers storm_headlines) = Some [(''storm'', 4), (''city'', 3)]"
    by (simp add: analyze_headers_def Let_def r) (simp add: storm_headlines_def)
  show ?thesis
    by (simp add: r a storm_counts)
qed

text \<open>
  C2 (as stated, refuted). The claim has a timed-out wait reported as a failure of the
  session. On a grid session whose page shows no article within the wait, the pipeline
  returns normally, and the one status that \<^verbatim>\<open>run_browserstack_test\<close> sends is "passed".
\<close>

theorem C2_timeout_reported_passed_counterexample:
  "snd (get_webdriver_browserstack (grid_env 200 timeout_driver) chrome_config)
     = Inr timeout_driver
   \<and> drv_wait_article timeout_driver = Inl (Exception ''Message: '')
   \<and> snd (scrape_and_process_articles (grid_env 200 timeout_driver) timeout_driver)
     = Inr TimedOut
   \<and> scripts_of (fst (run_browserstack_test (grid_env 200 timeout_driver) chrome_config))
     = [status_passed]"
proof -
  note a = acquire_chrome [of 200 timeout_driver]
  note t = timeout_driver_calls
  have s: "snd (scrape_and_process_articles (grid_env 200 timeout_driver) timeout_driver)
     = Inr TimedOut"
    by (simp add: scrape_timed_out [OF t(1) t(2) t(3)])
  note r = timeout_run(1) [OF a t(1) t(2) t(3) t(4)]
  show ?thesis
    by (intro conjI a t(3) s r)
qed

text \<open>
  C2 (amended). When the wait for an article times out, the pipeline prints the timeout
  and returns normally, with no article processed. In a BrowserStack run whose status
  call returns, the only status sent is then "passed", and the run returns normally
  when the teardown does.
\<close>

theorem C2_timeout_returns_normally:
  assumes "snd (get_webdriver_browserstack ev cfg) = Inr drv"
    and "drv_get drv OPINION_SECTION_URL = Inr ()" and "drv_current_url drv = Inr u"
    and "drv_wait_article drv = Inl e" and "drv_execute_script drv status_passed = Inr ()"
  shows "scrape_and_process_articles ev drv =
           ([Print (''Navigating to El Pa'' @ [CHR 0xED] @ ''s Opinion section: '' @ u),
             Print (''Timeout waiting for articles to load: '' @ str_exn e)],
            Inr TimedOut)
    \<and> scripts_of (fst (run_browserstack_test ev cfg)) = [status_passed]
    \<and> (drv_quit drv = Inr () \<longrightarrow> snd (run_browserstack_test ev cfg) = Inr ())"
  using scrape_timed_out [OF assms(2,3,4), of ev] timeout_run [OF assms] by blast

theorem C2_timeout_returns_normally_witness:
  "snd (get_webdriver_browserstack (grid_env 200 timeout_driver) chrome_config)
     = Inr timeout_driver
   \<and> drv_get timeout_driver OPINION_SECTION_URL = Inr ()
   \<and> drv_current_url timeout_driver = Inr OPINION_SECTION_URL
   \<and> drv_wait_article timeout_driver = Inl (Exception ''Message: '')
   \<and> drv_execute_script timeout_driver status_passed = Inr ()
   \<and> drv_quit timeout_driver = Inr ()
   \<and> scrape_and_process_articles (grid_env 200 timeout_driver) timeout_driver =
           ([Print (''Navigating to El Pa'' @ [CHR 0xED] @ ''s Opinion section: ''
                    @ OPINION_SECTION_URL),
             Print (''Timeout waiting for articles to load: ''
                    @ str_exn (Exception ''Message: ''))],
            Inr TimedOut)
   \<and> scripts_of (fst (run_browserstack_test (grid_env 200 timeout_driver) chrome_config))
       = [status_passed]
   \<and> snd (run_browserstack_test (grid_env 200 timeout_driver) chrome_config) = Inr ()"
proof -
  note a = acquire_chrome [of 200 timeout_driver]
  note t = timeout_driver_calls
  note w = C2_timeout_returns_normally [OF a t(1) t(2) t(3) t(4)]
  note w1 = w [THEN conjunct1]
  note w2 = w [THEN conjunct2, THEN conjunct1]
  note w3 = w [THEN conjunct2, THEN conjunct2, rule_format, OF t(5)]
  show ?thesis
    by (intro conjI a t w1 w2 w3)
qed


text \<open>
  C3 (the code at a failing input). The claim has every stored image URL start with
  "http". The only URL-bearing attribute of this article's image is a root-relative
  \<^verbatim>\<open>src\<close> that carries the address of the original in its query. Line 246 accepts it,
  because it contains "http"; line 250 rejects it for the download and line 272 prints
  that no valid URL was found; line 295 stores it in the record.
\<close>

theorem C3_relative_url_stored:
  "snd (scrape_and_process_articles (grid_env 200 (page_driver []))
          (page_driver [article_element_with ''Titular'' (Some relative_img)]))
     = Inr (Finished
          [\<lparr>title_spanish = ''Titular'',
            content_spanish = ''Content summary not easily scraped from this section.'',
            image_url = Some ''/resizer/foto.jpg?src=https://imagenes.elpais.com/foto.jpg'',
            title_english = ''EN Titular''\<rparr>]
          [''EN Titular''] (Some []))
   \<and> \<not> startswith ''/resizer/foto.jpg?src=https://imagenes.elpais.com/foto.jpg'' ''http''
   \<and> snd (handle_image (grid_env 200 (page_driver [])) 0
             (article_element_with ''Titular'' (Some relative_img))) = [no_valid_cover]"
proof -
  let ?ev = "grid_env 200 (page_driver [])"
  let ?a = "article_element_with ''Titular'' (Some relative_img)"
  have i: "handle_image ?ev 0 ?a
           = (Some ''/resizer/foto.jpg?src=https://imagenes.elpais.com/foto.jpg'', [no_valid_cover])"
    by (simp add: handle_image_def resolve_relative download_image_def startswith_def)
  have t: "translate_header ?ev ''Titular'' = (''EN Titular'', [''EN Titular''],
     [TranslateCall ''Titular'', Print (''Translated Title (English): '' @ ''EN Titular'')])"
    by (simp add: translate_header_def grid_env_def echo_client_def)
  have p: "snd (snd (process_article ?ev 0 ?a)) = Inr \<lparr>title_spanish = ''Titular'',
            content_spanish = ''Content summary not easily scraped from this section.'',
            image_url = Some ''/resizer/foto.jpg?src=https://imagenes.elpais.com/foto.jpg'',
            title_english = ''EN Titular''\<rparr>"
    by (simp add: process_article_record title_of_article content_of_article strip_Titular i t)
  have q: "fst (process_article ?ev 0 ?a) = [''EN Titular'']"
    by (simp add: process_article_record title_of_article strip_Titular t)
  have r: "fst (articles_loop (process_article ?ev) 0 [?a] ([], [], [])) = [\<lparr>title_spanish = ''Titular'',
            content_spanish = ''Content summary not easily scraped from this section.'',
            image_url = Some ''/resizer/foto.jpg?src=https://imagenes.elpais.com/foto.jpg'',
            title_english = ''EN Titular''\<rparr>]"
    by (subst articles_loop_records) (simp add: enumerate_eq_zip p)
  have h: "fst (snd (articles_loop (process_article ?ev) 0 [?a] ([], [], []))) = [''EN Titular'']"
    by (subst articles_loop_headers) (simp add: enumerate_eq_zip q)
  have w: "fst (analyze_headers [''EN Titular'']) = Some []"
    by (simp add: analyze_headers_def Let_def analysis_defs char_class_defs)
  have f: "snd (scrape_and_process_articles ?ev (page_driver [?a])) =
     Inr (Finished
            (fst (articles_loop (process_article ?ev) 0 (take 5 [?a]) ([], [], [])))
            (fst (snd (articles_loop (process_article ?ev) 0 (take 5 [?a]) ([], [], []))))
            (fst (analyze_headers
               (fst (snd (articles_loop (process_article ?ev) 0 (take 5 [?a]) ([], [], [])))))))"
    by (rule scrape_finished [where u = OPINION_SECTION_URL]) (simp_all add: page_driver_def)
  have tk: "take 5 [?a] = [?a]" by simp
  show ?thesis
    by (simp only: f tk r h w i) (simp add: startswith_def)
qed


text \<open>
  C4. When the image element's first qualifying attribute holds the candidate list
  "http://a.jpg 1x, http://b.jpg 2x", the image step leaves exactly "http://a.jpg" as the
  article's image URL, whatever the download does, and this is what the record stores.
\<close>

theorem C4_first_srcset_candidate:
  assumes "find_image a = (Some img, u0)"
    and "read_src_attrs img possible_src_attrs = Inr (Some ''http://a.jpg 1x, http://b.jpg 2x'')"
  shows "fst (handle_image ev i a) = Some ''http://a.jpg''
    \<and> (\<exists>hs es r. process_article ev i a = (hs, es, Inr r) \<and> image_url r = Some ''http://a.jpg'')"
proof -
  have r: "resolve_image_url a = (Some ''http://a.jpg 1x, http://b.jpg 2x'', None)"
    using assms by (simp add: resolve_image_url_def)
  have d: "fst (download_image ev i (Some ''http://a.jpg 1x, http://b.jpg 2x''))
             = Some ''http://a.jpg''"
    by (simp add: download_image_def startswith_def first_of_srcset_def first_candidate_srcset
        Let_def split: sum.splits)
  have "fst (handle_image ev i a) = Some ''http://a.jpg''"
    by (simp add: handle_image_def r split: prod.splits option.splits) (use d in auto)
  then show ?thesis
    by (simp add: process_article_record)
qed

theorem C4_first_srcset_candidate_witness:
  "find_image (article_element_with ''Titular'' (Some srcset_img)) = (Some srcset_img, None)
   \<and> read_src_attrs srcset_img possible_src_attrs
       = Inr (Some ''http://a.jpg 1x, http://b.jpg 2x'')
   \<and> fst (handle_image (grid_env 200 (page_driver [])) 0
            (article_element_with ''Titular'' (Some srcset_img))) = Some ''http://a.jpg''
   \<and> (\<exists>hs es r. process_article (grid_env 200 (page_driver [])) 0
            (article_element_with ''Titular'' (Some srcset_img)) = (hs, es, Inr r)
         \<and> image_url r = Some ''http://a.jpg'')"
proof -
  have f: "find_image (article_element_with ''Titular'' (Some srcset_img))
             = (Some srcset_img, None)"
    by (simp add: find_image_def find_element_def article_element_with_def media_css_def)
  have g: "read_src_attrs srcset_img possible_src_attrs
             = Inr (Some ''http://a.jpg 1x, http://b.jpg 2x'')"
    by (simp add: possible_src_attrs_def get_attribute_def srcset_img_def img_element_with_def
        startswith_def)
  show ?thesis
    using f g C4_first_srcset_candidate [OF f g, of "grid_env 200 (page_driver [])" 0] by simp
qed

text \<open>
  C5 (as stated, refuted). The claim has the image field of the record absent after a
  failed download. On an article whose image resolves to
  "https://imagenes.elpais.com/foto.jpg", with a server that answers 404, the record
  stores that URL.
\<close>

theorem C5_failed_download_counterexample:
  "map_sum id status_code (requests_get (grid_env 404 (page_driver []))
      ''https://imagenes.elpais.com/foto.jpg'') = Inr 404
   \<and> snd (snd (process_article (grid_env 404 (page_driver [])) 0
              (article_element_with ''Titular'' (Some cover_img))))
     = Inr \<lparr>title_spanish = ''Titular'',
            content_spanish = ''Content summary not easily scraped from this section.'',
            image_url = Some ''https://imagenes.elpais.com/foto.jpg'',
            title_english = ''EN Titular''\<rparr>"
proof -
  have i: "fst (handle_image (grid_env 404 (page_driver [])) 0
              (article_element_with ''Titular'' (Some cover_img)))
           = Some ''https://imagenes.elpais.com/foto.jpg''"
    by (simp add: handle_image_def resolve_cover download_image_def startswith_def
        first_of_srcset_def grid_env_def Let_def)
  have t: "fst (translate_header (grid_env 404 (page_driver [])) ''Titular'') = ''EN Titular''"
    by (simp add: translate_header_def grid_env_def echo_client_def)
  show ?thesis
    by (simp add: process_article_record title_of_article content_of_article strip_Titular i t)
      (simp add: grid_env_def)
qed

text \<open>
  C5 (amended). When the image URL has been resolved to a string that starts with "http"
  and the request for it raises or returns a status other than 200, the image step
  returns with the URL it requested, its last effect is a printed message, and it opens
  and writes no file; the block of the article ends with a record whose image URL is the
  URL requested.
\<close>

theorem C5_failed_download:
  assumes "resolve_image_url a = (Some u, None)" and "startswith u ''http''"
    and "(\<exists>e. requests_get ev (first_of_srcset u) = Inl e)
       \<or> (\<exists>resp. requests_get ev (first_of_srcset u) = Inr resp \<and> status_code resp \<noteq> 200)"
  shows "\<exists>es msg. handle_image ev i a = (Some (first_of_srcset u), es)
      \<and> files_of es = [] \<and> last es = Print msg
      \<and> (\<exists>hs es' r. process_article ev i a = (hs, es', Inr r)
            \<and> image_url r = Some (first_of_srcset u))"
proof -
  have n: "u \<noteq> []"
    using assms(2) by (auto simp add: startswith_def)
  have "(\<exists>es msg. download_image ev i (Some u)
                    = (Some (first_of_srcset u), es @ [Print msg], None) \<and> files_of es = [])
     \<or> (\<exists>es e. download_image ev i (Some u) = (Some (first_of_srcset u), es, Some e)
                 \<and> files_of es = [])"
    using assms(3) by (auto simp add: download_image_def Let_def n assms(2) files_of_def)
  then show ?thesis
    by (auto simp add: handle_image_def assms(1) image_error_def files_of_def
        process_article_record)
qed

theorem C5_failed_download_witness:
  "resolve_image_url (article_element_with ''Titular'' (Some cover_img))
     = (Some ''https://imagenes.elpais.com/foto.jpg'', None)
   \<and> startswith ''https://imagenes.elpais.com/foto.jpg'' ''http''
   \<and> first_of_srcset ''https://imagenes.elpais.com/foto.jpg''
       = ''https://imagenes.elpais.com/foto.jpg''
   \<and> map_sum id status_code (requests_get (grid_env 404 (page_driver []))
        ''https://imagenes.elpais.com/foto.jpg'') = Inr 404
   \<and> requests_get unreachable_env ''https://imagenes.elpais.com/foto.jpg''
        = Inl (Exception ''Read timed out.'')
   \<and> (\<exists>es msg. handle_image (grid_env 404 (page_driver [])) 0
                   (article_element_with ''Titular'' (Some cover_img))
                 = (Some ''https://imagenes.elpais.com/foto.jpg'', es)
         \<and> files_of es = [] \<and> last es = Print msg)
   \<and> (\<exists>es msg. handle_image unreachable_env 0
                   (article_element_with ''Titular'' (Some cover_img))
                 = (Some ''https://imagenes.elpais.com/foto.jpg'', es)
         \<and> files_of es = [] \<and> last es = Print msg)"
proof -
  have rc: "resolve_image_url (article_element_with ''Titular'' (Some cover_img))
     = (Some ''https://imagenes.elpais.com/foto.jpg'', None)"
    by (rule resolve_cover)
  have s: "startswith ''https://imagenes.elpais.com/foto.jpg'' ''http''"
    by (simp add: startswith_def)
  have c: "first_of_srcset ''https://imagenes.elpais.com/foto.jpg''
             = ''https://imagenes.elpais.com/foto.jpg''"
    by (simp add: first_of_srcset_def)
  have v: "map_sum id status_code (requests_get (grid_env 404 (page_driver []))
        ''https://imagenes.elpais.com/foto.jpg'') = Inr 404"
    by (simp add: grid_env_def)
  have w: "requests_get unreachable_env ''https://imagenes.elpais.com/foto.jpg''
        = Inl (Exception ''Read timed out.'')"
    by (simp add: unreachable_env_def)
  have g: "(\<exists>e. requests_get (grid_env 404 (page_driver []))
                  (first_of_srcset ''https://imagenes.elpais.com/foto.jpg'') = Inl e)
       \<or> (\<exists>resp. requests_get (grid_env 404 (page_driver []))
                  (first_of_srcset ''https://imagenes.elpais.com/foto.jpg'') = Inr resp
             \<and> status_code resp \<noteq> 200)"
    by (simp add: grid_env_def)
  have h: "(\<exists>e. requests_get unreachable_env
                  (first_of_srcset ''https://imagenes.elpais.com/foto.jpg'') = Inl e)
       \<or> (\<exists>resp. requests_get unreachable_env
                  (first_of_srcset ''https://imagenes.elpais.com/foto.jpg'') = Inr resp
             \<and> status_code resp \<noteq> 200)"
    by (simp add: unreachable_env_def)
  have a: "\<exists>es msg. handle_image (grid_env 404 (page_driver [])) 0
                   (article_element_with ''Titular'' (Some cover_img))
                 = (Some ''https://imagenes.elpais.com/foto.jpg'', es)
         \<and> files_of es = [] \<and> last es = Print msg"
    using C5_failed_download [OF rc s g, of 0] unfolding c by blast
  have b: "\<exists>es msg. handle_image unreachable_env 0
                   (article_element_with ''Titular'' (Some cover_img))
                 = (Some ''https://imagenes.elpais.com/foto.jpg'', es)
         \<and> files_of es = [] \<and> last es = Print msg"
    using C5_failed_download [OF rc s h, of 0] unfolding c by blast
  show ?thesis
    by (intro conjI rc s c v w a b)
qed

text \<open>
  C6. Let the page hold the articles \<open>pre\<close>, then \<open>a\<close>, then \<open>post\<close>, with \<open>a\<close> among the
  first five, and let the translation client raise on the title of \<open>a\<close>. Then the run
  finishes; the record of \<open>a\<close> carries its Spanish title and the English title
  "Translation failed"; the records before and after it are the records that \<open>pre\<close> and
  the rest of the first five yield on their own; and the headers that the analysis reads
  are the headers of those others, with nothing from \<open>a\<close>.
\<close>

theorem C6_translation_failure:
  assumes "drv_get drv OPINION_SECTION_URL = Inr ()" and "drv_current_url drv = Inr u"
    and "drv_wait_article drv = Inr ()"
    and "drv_find_articles drv = Inr (pre @ a # post)" and "length pre < 5"
    and "translate_client ev = Some client"
    and "fst (scrape_title (length pre) a) \<noteq> ''Title not found''"
    and "client (fst (scrape_title (length pre) a)) = Inl e"
  shows "\<exists>r. title_spanish r = fst (scrape_title (length pre) a)
     \<and> title_english r = ''Translation failed''
     \<and> snd (scrape_and_process_articles ev drv) =
         Inr (Finished
           (records_from ev 0 pre @ [r]
              @ records_from ev (Suc (length pre)) (take (4 - length pre) post))
           (headers_from ev 0 pre
              @ headers_from ev (Suc (length pre)) (take (4 - length pre) post))
           (fst (analyze_headers
              (headers_from ev 0 pre
                 @ headers_from ev (Suc (length pre)) (take (4 - length pre) post)))))"
proof -
  have tk: "take 5 (pre @ a # post) = pre @ a # take (4 - length pre) post"
    using assms(5) by (simp add: take_Cons')
  have t: "translate_header ev (fst (scrape_title (length pre) a))
      = (''Translation failed'', [],
         [TranslateCall (fst (scrape_title (length pre) a)),
          Print (''Error translating title '' @ [CHR 0x27] @ fst (scrape_title (length pre) a)
                 @ [CHR 0x27] @ '': '' @ str_exn e)])"
    using assms(6,7,8) by (simp add: translate_header_def)
  note f = scrape_finished_from [OF assms(1,2,3,4), of ev, unfolded tk]
  show ?thesis
    by (simp only: f records_from_append headers_from_append records_from_Cons
        headers_from_Cons) (simp add: t)
qed

theorem C6_translation_failure_witness:
  "drv_get (page_driver three_articles) OPINION_SECTION_URL = Inr ()
   \<and> drv_current_url (page_driver three_articles) = Inr OPINION_SECTION_URL
   \<and> drv_wait_article (page_driver three_articles) = Inr ()
   \<and> drv_find_articles (page_driver three_articles)
       = Inr ([article_element_with ''Titular'' None] @ article_element_with ''Lluvia'' None
              # [article_element_with ''Tormenta'' None])
   \<and> length [article_element_with ''Titular'' None] < 5
   \<and> translate_client (grid_env 200 (page_driver [])) = Some echo_client
   \<and> fst (scrape_title (length [article_element_with ''Titular'' None])
             (article_element_with ''Lluvia'' None)) = ''Lluvia''
   \<and> ''Lluvia'' \<noteq> ''Title not found''
   \<and> echo_client ''Lluvia'' = Inl (Exception ''503 Service Unavailable'')
   \<and> (\<exists>r. title_spanish r = ''Lluvia''
     \<and> title_english r = ''Translation failed''
     \<and> snd (scrape_and_process_articles (grid_env 200 (page_driver []))
              (page_driver three_articles)) =
         Inr (Finished
           (records_from (grid_env 200 (page_driver [])) 0 [article_element_with ''Titular'' None]
              @ [r]
              @ records_from (grid_env 200 (page_driver []))
                  (Suc (length [article_element_with ''Titular'' None]))
                  (take (4 - length [article_element_with ''Titular'' None])
                     [article_element_with ''Tormenta'' None]))
           [''EN Titular'', ''EN Tormenta'']
           (Some [])))"
proof -
  let ?ev = "grid_env 200 (page_driver [])"
  let ?pre = "[article_element_with ''Titular'' None]"
  let ?a = "article_element_with ''Lluvia'' None"
  let ?post = "[article_element_with ''Tormenta'' None]"
  have h1: "drv_get (page_driver three_articles) OPINION_SECTION_URL = Inr ()"
    by (simp add: page_driver_def)
  have h2: "drv_current_url (page_driver three_articles) = Inr OPINION_SECTION_URL"
    by (simp add: page_driver_def)
  have h3: "drv_wait_article (page_driver three_articles) = Inr ()"
    by (simp add: page_driver_def)
  have h4: "drv_find_articles (page_driver three_articles) = Inr (?pre @ ?a # ?post)"
    by (simp add: page_driver_def three_articles_def)
  have h5: "length ?pre < 5"
    by simp
  have h6: "translate_client ?ev = Some echo_client"
    by (simp add: grid_env_def)
  have ti: "fst (scrape_title (length ?pre) ?a) = ''Lluvia''"
    by (simp add: title_of_article strip_def is_space_def)
  have ne: "''Lluvia'' \<noteq> ''Title not found''"
    by simp
  have ec: "echo_client ''Lluvia'' = Inl (Exception ''503 Service Unavailable'')"
    by (simp add: echo_client_def)
  have h7: "fst (scrape_title (length ?pre) ?a) \<noteq> ''Title not found''"
    by (simp only: ti ne) simp
  have h8: "echo_client (fst (scrape_title (length ?pre) ?a))
              = Inl (Exception ''503 Service Unavailable'')"
    by (simp only: ti ec)
  have s1: "strip ''Tormenta'' = ''Tormenta''"
    by (simp add: strip_def is_space_def)
  have hd1: "headers_from ?ev 0 ?pre = [''EN Titular'']"
    by (simp add: headers_from_Cons headers_from_Nil title_of_article strip_Titular
        translate_header_def grid_env_def echo_client_def)
  have hd2: "headers_from ?ev (Suc (length ?pre)) (take (4 - length ?pre) ?post)
               = [''EN Tormenta'']"
    by (simp add: headers_from_Cons headers_from_Nil title_of_article s1
        translate_header_def grid_env_def echo_client_def)
  have hd: "headers_from ?ev 0 ?pre
              @ headers_from ?ev (Suc (length ?pre)) (take (4 - length ?pre) ?post)
            = [''EN Titular'', ''EN Tormenta'']"
    by (simp only: hd1 hd2) simp
  have an: "fst (analyze_headers [''EN Titular'', ''EN Tormenta'']) = Some []"
    by (simp add: analyze_headers_def Let_def analysis_defs char_class_defs)
  note inst = C6_translation_failure [OF h1 h2 h3 h4 h5 h6 h7 h8, unfolded hd an ti]
  show ?thesis
    by (intro conjI h1 h2 h3 h4 h5 h6 ti ne ec inst)
qed






text \<open>
  C8. When the query for the heading of an article raises, the title extracted is exactly
  "Title not found", and the exception goes no further: the step returns the title, and
  the block of the article ends with a record that carries it.
\<close>

theorem C8_title_sentinel:
  assumes "find_element a TAG_NAME ''h2'' = Inl e"
  shows "fst (scrape_title i a) = ''Title not found''
    \<and> (\<exists>hs es r. process_article ev i a = (hs, es, Inr r)
          \<and> title_spanish r = ''Title not found'')"
  using assms by (simp add: process_article_record scrape_title_def title_not_found_def)

theorem C8_title_sentinel_witness:
  "find_element bare_article TAG_NAME ''h2'' = Inl (Exception ''no such element'')
   \<and> fst (scrape_title 0 bare_article) = ''Title not found''
   \<and> (\<exists>hs es r. process_article (grid_env 200 (page_driver [])) 0 bare_article = (hs, es, Inr r)
          \<and> title_spanish r = ''Title not found'')"
proof -
  have h: "find_element bare_article TAG_NAME ''h2'' = Inl (Exception ''no such element'')"
    by (simp add: find_element_def bare_article_def)
  show ?thesis
    using h C8_title_sentinel [OF h, of 0 "grid_env 200 (page_driver [])"] by simp
qed

text \<open>
  C9. In a run of \<^verbatim>\<open>run_browserstack_test\<close> that acquired a session, \<^verbatim>\<open>driver.quit\<close> is
  called exactly once, whatever the pipeline, the status calls and the teardown itself
  do; in a run whose acquisition raised it is not called.
\<close>

theorem C9_quit_exactly_once:
  "(snd (get_webdriver_browserstack ev cfg) = Inr drv
      \<longrightarrow> count_list (fst (run_browserstack_test ev cfg)) Quit = 1)
   \<and> (snd (get_webdriver_browserstack ev cfg) = Inl e
      \<longrightarrow> count_list (fst (run_browserstack_test ev cfg)) Quit = 0)"
proof (intro conjI impI)
  assume "snd (get_webdriver_browserstack ev cfg) = Inr drv"
  then obtain es where a: "get_webdriver_browserstack ev cfg = (es, Inr drv)"
    by (cases "get_webdriver_browserstack ev cfg") simp
  obtain es1 x where b: "test_body ev cfg = (Some drv, es1, x)" and c: "count_list es1 Quit = 0"
    using test_body_acquired [OF a] by blast
  obtain es2 p where
    h: "(case x of None \<Rightarrow> ([], None) | Some e \<Rightarrow> test_failed cfg (Some drv) e) = (es2, p)"
    by (cases "(case x of None \<Rightarrow> ([], None) | Some e \<Rightarrow> test_failed cfg (Some drv) e)")
  have d: "count_list es2 Quit = 0"
  proof (cases x)
    case None
    then show ?thesis using h by simp
  next
    case (Some e')
    then show ?thesis using h count_quit_failed [of cfg "Some drv" e'] by simp
  qed
  have f: "count_list (fst (test_finally cfg (Some drv))) Quit = 1"
    by (simp add: test_finally_def split: sum.splits)
  obtain es3 q where g: "test_finally cfg (Some drv) = (es3, q)"
    by (cases "test_finally cfg (Some drv)")
  have f': "count_list es3 Quit = 1"
    using f g by simp
  show "count_list (fst (run_browserstack_test ev cfg)) Quit = 1"
    by (simp add: run_browserstack_test_def b h g c d f' count_quit_append split: option.splits)
next
  assume "snd (get_webdriver_browserstack ev cfg) = Inl e"
  then obtain es where a: "get_webdriver_browserstack ev cfg = (es, Inl e)"
    by (cases "get_webdriver_browserstack ev cfg") simp
  have b: "test_body ev cfg = (None, es, Some e)" and c: "count_list es Quit = 0"
    using test_body_not_acquired [OF a] by simp_all
  obtain es2 p where h: "test_failed cfg None e = (es2, p)"
    by (cases "test_failed cfg None e")
  have d: "count_list es2 Quit = 0"
    using h count_quit_failed [of cfg None e] by simp
  show "count_list (fst (run_browserstack_test ev cfg)) Quit = 0"
    by (simp add: run_browserstack_test_def b h c d test_finally_def count_quit_append
        split: option.splits)
qed

theorem C9_quit_exactly_once_witness:
  "snd (get_webdriver_browserstack (grid_env 200 (page_driver three_articles)) chrome_config)
     = Inr (page_driver three_articles)
   \<and> count_list (fst (run_browserstack_test (grid_env 200 (page_driver three_articles))
                        chrome_config)) Quit = 1
   \<and> snd (get_webdriver_browserstack no_credentials_env chrome_config)
     = Inl (ValueError ''BrowserStack credentials missing.'')
   \<and> count_list (fst (run_browserstack_test no_credentials_env chrome_config)) Quit = 0"
proof -
  note a = acquire_chrome [of 200 "page_driver three_articles"]
  note b = acquire_no_credentials
  note p = C9_quit_exactly_once [of "grid_env 200 (page_driver three_articles)" chrome_config
      "page_driver three_articles", THEN conjunct1, rule_format, OF a]
  note q = C9_quit_exactly_once [of no_credentials_env chrome_config _
      "ValueError ''BrowserStack credentials missing.''", THEN conjunct2, rule_format, OF b]
  show ?thesis
    by (intro conjI a b p q)
qed

text \<open>
  C10. When no translation client is configured, or the title is the sentinel
  "Title not found", the block of the article ends with a record whose English title is
  the empty string, which is not the sentinel "Translation failed"; the block calls no
  translation and appends nothing to the headers that the analysis reads.
\<close>

theorem C10_untranslated_empty:
  assumes "translate_client ev = None \<or> fst (scrape_title i a) = ''Title not found''"
  shows "\<exists>es r. process_article ev i a = ([], es, Inr r)
     \<and> title_english r = []
     \<and> title_english r \<noteq> ''Translation failed''
     \<and> (\<forall>t. TranslateCall t \<notin> set es)"
proof -
  have t: "translate_header ev (fst (scrape_title i a)) = ([], [], [skipping_translation])"
    using assms by (auto simp add: translate_header_def split: option.splits)
  have n1: "list_all (\<lambda>x. \<forall>t. x \<noteq> TranslateCall t) (snd (scrape_title i a))"
    by (rule scrape_title_effects) simp
  have n2: "list_all (\<lambda>x. \<forall>t. x \<noteq> TranslateCall t) (snd (scrape_content a))"
    by (rule scrape_content_effects) simp
  have n3: "list_all (\<lambda>x. \<forall>t. x \<noteq> TranslateCall t) (snd (handle_image ev i a))"
    by (rule handle_image_effects) simp_all
  show ?thesis
    using n1 n2 n3
    by (auto simp add: process_article_record t skipping_translation_def list_all_iff)
qed

theorem C10_untranslated_empty_witness:
  "(translate_client (grid_env 200 (page_driver [])) = None
      \<or> fst (scrape_title 0 bare_article) = ''Title not found'')
   \<and> (\<exists>es r. process_article (grid_env 200 (page_driver [])) 0 bare_article = ([], es, Inr r)
     \<and> title_english r = []
     \<and> title_english r \<noteq> ''Translation failed''
     \<and> (\<forall>t. TranslateCall t \<notin> set es))
   \<and> (translate_client offline_env = None
      \<or> fst (scrape_title 0 (article_element_with ''Lluvia'' None)) = ''Title not found'')
   \<and> (\<exists>es r. process_article offline_env 0 (article_element_with ''Lluvia'' None)
                 = ([], es, Inr r)
     \<and> title_english r = []
     \<and> title_english r \<noteq> ''Translation failed''
     \<and> (\<forall>t. TranslateCall t \<notin> set es))"
proof -
  have h: "translate_client (grid_env 200 (page_driver [])) = None
      \<or> fst (scrape_title 0 bare_article) = ''Title not found''"
    by (simp add: scrape_title_def title_not_found_def find_element_def bare_article_def)
  have k: "translate_client offline_env = None
      \<or> fst (scrape_title 0 (article_element_with ''Lluvia'' None)) = ''Title not found''"
    by (simp add: offline_env_def grid_env_def)
  show ?thesis
    using h k C10_untranslated_empty [OF h] C10_untranslated_empty [OF k] by simp
qed

end
